theory Spec2Isabelle
  imports Complex_Main "HOL-Library.AList" "HOL-Library.Char_ord" "HOL-Library.List_Lexorder"
    "HOL-Library.Product_Lexorder"
begin

section \<open>Real Income by State Explorer: the script \<^verbatim>\<open>app.py\<close>\<close>

text \<open>
  The program is one Streamlit script, run top to bottom on every interaction. The model
  follows it block by block. Conventions:
  \<^item> a spreadsheet cell or data-frame entry is a \<open>cell\<close>; \<open>Null\<close> stands for the missing
    value (NaN, NaT);
  \<^item> floating-point numbers are exact rationals, so rounding is not modelled; text is ASCII;
  \<^item> a sheet, as \<^verbatim>\<open>read_excel\<close> returns it, is its header cells and its records, cell by
    position;
  \<^item> a data frame is its list of column names and its list of rows, a row being an
    association list from column name to cell (a column absent from a row reads \<open>Null\<close>);
  \<^item> an exception or \<^verbatim>\<open>st.stop()\<close> ends the run: the result type is \<open>halt + 'a\<close>;
  \<^item> what pandas, numpy and Streamlit do and the script does not determine is a parameter,
    the record \<open>lib\<close>: parsing a date from text, \<^verbatim>\<open>astype(str)\<close> on a cell that is not text
    (a missing cell may stay missing), what is raised when header names collide, how an
    unstable sort orders equal keys, and whether the slider accepts its bounds.
\<close>

subsection \<open>Cells, frames, outcomes\<close>

record timestamp =
  ts_year :: int
  ts_month :: nat
  ts_day :: nat

datatype cell = Null | Str string | IntV int | FloatV rat | Stamp timestamp

type_synonym row = "(string \<times> cell) list"

record frame =
  columns :: "string list"
  rows :: "row list"

record sheet =
  header :: "cell list"
  records :: "cell list list"

type_synonym workbook = "(string \<times> sheet) list"

datatype exn =
  KeyError string | NameError string | ValueError string | TypeError string
| AttributeError string | StreamlitError string

datatype level = Info | Warning | Error

datatype halt = Raised exn | Stopped level string

type_synonym 'a res = "halt + 'a"

definition bind :: "'a res \<Rightarrow> ('a \<Rightarrow> 'b res) \<Rightarrow> 'b res" where
  "bind m f = (case m of Inl h \<Rightarrow> Inl h | Inr x \<Rightarrow> f x)"

record lib =
  parse_datetime :: "cell \<Rightarrow> timestamp option"
  str_of :: "cell \<Rightarrow> string option"
  duplicate_header :: "string list \<Rightarrow> exn option"
  ties :: "(int \<times> rat) list \<Rightarrow> nat \<Rightarrow> nat"
  slider :: "int \<Rightarrow> int \<Rightarrow> int \<times> int \<Rightarrow> (int \<times> int) res"

definition cell_at :: "row \<Rightarrow> string \<Rightarrow> cell" where
  "cell_at r c = (case map_of r c of Some v \<Rightarrow> v | None \<Rightarrow> Null)"

definition str_val :: "cell \<Rightarrow> string option" where
  "str_val c = (case c of Str s \<Rightarrow> Some s | _ \<Rightarrow> None)"

definition int_val :: "cell \<Rightarrow> int option" where
  "int_val c = (case c of IntV i \<Rightarrow> Some i | _ \<Rightarrow> None)"

definition num_val :: "cell \<Rightarrow> rat option" where
  "num_val c = (case c of IntV i \<Rightarrow> Some (of_int i) | FloatV q \<Rightarrow> Some q | _ \<Rightarrow> None)"

text \<open>\<^verbatim>\<open>df[c]\<close>: the column, or KeyError.\<close>

definition get_col :: "string \<Rightarrow> frame \<Rightarrow> cell list res" where
  "get_col c df =
     (if c \<in> set (columns df) then Inr (map (\<lambda>r. cell_at r c) (rows df))
      else Inl (Raised (KeyError c)))"

text \<open>\<^verbatim>\<open>df[c] = ...\<close>, the new entry computed row by row.\<close>

definition assign :: "string \<Rightarrow> (row \<Rightarrow> cell) \<Rightarrow> frame \<Rightarrow> frame" where
  "assign c f df =
     \<lparr>columns = (if c \<in> set (columns df) then columns df else columns df @ [c]),
      rows = map (\<lambda>r. AList.update c (f r) r) (rows df)\<rparr>"

text \<open>\<^verbatim>\<open>df[c] = g(df[c])\<close> for an element-wise \<open>g\<close>: reading the column may raise.\<close>

definition apply_col :: "string \<Rightarrow> (cell \<Rightarrow> cell) \<Rightarrow> frame \<Rightarrow> frame res" where
  "apply_col c g df =
     (if c \<in> set (columns df) then Inr (assign c (\<lambda>r. g (cell_at r c)) df)
      else Inl (Raised (KeyError c)))"

definition dropna :: "string list \<Rightarrow> frame \<Rightarrow> frame res" where
  "dropna cs df =
     (case filter (\<lambda>c. c \<notin> set (columns df)) cs of
        [] \<Rightarrow> Inr (df\<lparr>rows := filter (\<lambda>r. \<forall>c\<in>set cs. cell_at r c \<noteq> Null) (rows df)\<rparr>)
      | c # _ \<Rightarrow> Inl (Raised (KeyError c)))"

subsection \<open>Strings\<close>

definition is_space :: "char \<Rightarrow> bool" where
  "is_space c =
     (c \<in> set [CHR 0x09, CHR 0x0A, CHR 0x0B, CHR 0x0C, CHR 0x0D,
                CHR 0x1C, CHR 0x1D, CHR 0x1E, CHR 0x1F, CHR 0x20])"

definition upper_char :: "char \<Rightarrow> char" where
  "upper_char c =
     (case map_of (zip ''abcdefghijklmnopqrstuvwxyz'' ''ABCDEFGHIJKLMNOPQRSTUVWXYZ'') c of
        Some u \<Rightarrow> u
      | None \<Rightarrow> c)"

definition lower_char :: "char \<Rightarrow> char" where
  "lower_char c =
     (case map_of (zip ''ABCDEFGHIJKLMNOPQRSTUVWXYZ'' ''abcdefghijklmnopqrstuvwxyz'') c of
        Some l \<Rightarrow> l
      | None \<Rightarrow> c)"

definition py_upper :: "string \<Rightarrow> string" where
  "py_upper s = map upper_char s"

definition py_lower :: "string \<Rightarrow> string" where
  "py_lower s = map lower_char s"

definition py_strip :: "string \<Rightarrow> string" where
  "py_strip s = rev (dropWhile is_space (rev (dropWhile is_space s)))"

text \<open>\<^verbatim>\<open>sub in s\<close> on strings.\<close>

fun contains :: "string \<Rightarrow> string \<Rightarrow> bool" where
  "contains sub [] = (sub = [])"
| "contains sub (c # cs) = (take (length sub) (c # cs) = sub \<or> contains sub cs)"

subsection \<open>\<^verbatim>\<open>load_data\<close> (lines 26 to 38)\<close>

definition read_excel :: "workbook \<Rightarrow> string \<Rightarrow> sheet res" where
  "read_excel file sheet_name =
     (case map_of file sheet_name of
        None \<Rightarrow> Inl (Raised (ValueError ''Worksheet not found''))
      | Some sh \<Rightarrow> Inr sh)"

text \<open>
  Line 29, \<^verbatim>\<open>[c.strip().lower() for c in df.columns]\<close>: a header that is not text has no
  \<^verbatim>\<open>strip\<close>. (pandas names an empty header cell itself, so a header is never missing.)
\<close>

definition normalise :: "string \<Rightarrow> string" where
  "normalise c = py_lower (py_strip c)"

definition header_names :: "cell list \<Rightarrow> string list res" where
  "header_names hs =
     (if \<forall>h\<in>set hs. str_val h \<noteq> None then Inr (map normalise (List.map_filter str_val hs))
      else Inl (Raised (AttributeError ''strip'')))"

definition set_columns :: "string list \<Rightarrow> sheet \<Rightarrow> frame" where
  "set_columns names sh = \<lparr>columns = names, rows = map (zip names) (records sh)\<rparr>"

text \<open>
  When two names are equal after normalisation, \<^verbatim>\<open>df[c]\<close> is no longer one column and
  what lines 30 to 36 raise, if anything, is the library's affair: \<open>duplicate_header\<close>.
  Where it raises nothing the first of the equal columns is read.
\<close>

definition header_clash :: "lib \<Rightarrow> string list \<Rightarrow> exn option" where
  "header_clash L names = (if distinct names then None else duplicate_header L names)"

text \<open>\<^verbatim>\<open>pd.to_datetime(..., errors="coerce")\<close> on one entry: what does not parse is NaT.\<close>

definition to_datetime :: "lib \<Rightarrow> cell \<Rightarrow> cell" where
  "to_datetime L c =
     (case c of
        Stamp t \<Rightarrow> Stamp t
      | Null \<Rightarrow> Null
      | _ \<Rightarrow> (case parse_datetime L c of Some t \<Rightarrow> Stamp t | None \<Rightarrow> Null))"

text \<open>
  \<^verbatim>\<open>.astype(str)\<close> on one entry: text stays; anything else becomes the text the library
  prints for it, or stays missing. \<^verbatim>\<open>.str.upper()\<close> leaves a missing entry missing.
\<close>

definition astype_str :: "lib \<Rightarrow> cell \<Rightarrow> cell" where
  "astype_str L c =
     (case c of
        Str s \<Rightarrow> Str s
      | _ \<Rightarrow> (case str_of L c of Some s \<Rightarrow> Str s | None \<Rightarrow> Null))"

definition str_upper :: "cell \<Rightarrow> cell" where
  "str_upper c = (case c of Str s \<Rightarrow> Str (py_upper s) | _ \<Rightarrow> c)"

text \<open>\<^verbatim>\<open>.dt.year\<close> on one entry of a datetime column.\<close>

definition dt_year :: "cell \<Rightarrow> cell" where
  "dt_year c = (case c of Stamp t \<Rightarrow> IntV (ts_year t) | _ \<Rightarrow> Null)"

definition load_data :: "lib \<Rightarrow> workbook \<Rightarrow> frame res" where
  "load_data L file =
     bind (read_excel file ''cleaned_long'') (\<lambda>sh.
     bind (header_names (header sh)) (\<lambda>names.
     case header_clash L names of
       Some e \<Rightarrow> Inl (Raised e)
     | None \<Rightarrow>
     bind (apply_col ''date'' (to_datetime L) (set_columns names sh)) (\<lambda>df1.
     bind (apply_col ''geo'' (\<lambda>c. str_upper (astype_str L c)) df1) (\<lambda>df2.
     bind (apply_col ''series'' (astype_str L) df2) (\<lambda>df3.
     bind (apply_col ''topic'' (astype_str L) df3) (\<lambda>df4.
     bind (dropna [''date'', ''value''] df4) (\<lambda>df5.
     Inr (assign ''year'' (\<lambda>r. dt_year (cell_at r ''date'')) df5))))))))"

subsection \<open>Data check and sidebar (lines 40 to 67)\<close>

text \<open>
  Python's \<^verbatim>\<open>sorted\<close> raises TypeError as soon as it compares text with a number (a
  missing entry is the float NaN) or with a timestamp.
\<close>

datatype kind = Text | Number | Time

definition kind_of :: "cell \<Rightarrow> kind" where
  "kind_of c = (case c of Str _ \<Rightarrow> Text | Stamp _ \<Rightarrow> Time | _ \<Rightarrow> Number)"

definition py_sortable :: "cell list \<Rightarrow> bool" where
  "py_sortable cs = (\<forall>a\<in>set cs. \<forall>b\<in>set cs. kind_of a = kind_of b)"

text \<open>\<^verbatim>\<open>.unique()\<close> keeps the first occurrence of each value, in order of appearance.\<close>

definition unique :: "'a list \<Rightarrow> 'a list" where
  "unique xs = rev (remdups (rev xs))"

definition data_check :: "frame \<Rightarrow> unit res" where
  "data_check df =
     bind (get_col ''topic'' df) (\<lambda>topics.
     if \<not> py_sortable topics then Inl (Raised (TypeError ''sorted''))
     else bind (get_col ''geo_level'' df) (\<lambda>levels.
     if \<not> py_sortable levels then Inl (Raised (TypeError ''sorted''))
     else Inr ()))"

definition is_state_row :: "row \<Rightarrow> bool" where
  "is_state_row r =
     (cell_at r ''geo_level'' = Str ''state'' \<and>
      (case cell_at r ''geo'' of Str s \<Rightarrow> length s = 2 | _ \<Rightarrow> False))"

definition state_list :: "frame \<Rightarrow> string list" where
  "state_list df =
     sort (remdups (List.map_filter (\<lambda>r. str_val (cell_at r ''geo'')) (filter is_state_row (rows df))))"

definition state_options :: "frame \<Rightarrow> string list" where
  "state_options df = (if state_list df \<noteq> [] then state_list df else [''MD''])"

text \<open>The widget returns one of its options: the one picked, the first by default.\<close>

definition selectbox :: "string list \<Rightarrow> nat \<Rightarrow> string" where
  "selectbox options pick = (if pick < length options then options ! pick else hd options)"

text \<open>\<^verbatim>\<open>int(df["year"].min())\<close>: the minimum of an empty column is NaN, and \<^verbatim>\<open>int\<close> raises.\<close>

definition year_bounds :: "frame \<Rightarrow> (int \<times> int) res" where
  "year_bounds df =
     (case List.map_filter (\<lambda>r. int_val (cell_at r ''year'')) (rows df) of
        [] \<Rightarrow> Inl (Raised (ValueError ''cannot convert float NaN to integer''))
      | y # ys \<Rightarrow> Inr (fold min ys y, fold max ys y))"

text \<open>
  Line 62, \<^verbatim>\<open>st.sidebar.slider("Year range", year_min, year_max, (max(year_min, 2000), year_max))\<close>:
  Streamlit returns the chosen range or rejects the bounds with an exception.
\<close>

definition year_range :: "lib \<Rightarrow> int \<times> int \<Rightarrow> (int \<times> int) res" where
  "year_range L b = (case b of (year_min, year_max) \<Rightarrow>
     slider L year_min year_max (max year_min 2000, year_max))"

subsection \<open>CPI deflator (lines 69 to 79)\<close>

definition is_cpi_row :: "row \<Rightarrow> bool" where
  "is_cpi_row r = (cell_at r ''geo_level'' = Str ''national'' \<and> cell_at r ''series'' = Str ''CPIAUCSL'')"

definition cpi :: "frame \<Rightarrow> frame" where
  "cpi df = assign ''year'' (\<lambda>r. dt_year (cell_at r ''date'')) (df\<lparr>rows := filter is_cpi_row (rows df)\<rparr>)"

text \<open>The mean of a numeric column skips missing entries; of no entry at all it is NaN.\<close>

definition mean :: "rat list \<Rightarrow> rat option" where
  "mean xs = (if xs = [] then None else Some (sum_list xs / of_nat (length xs)))"

text \<open>
  \<^verbatim>\<open>groupby("year", as_index=False)["value"].mean()\<close>: one row per year, years ascending,
  rows without a year left out; text in the column is a TypeError.
\<close>

definition cpi_annual :: "frame \<Rightarrow> (int \<times> rat option) list res" where
  "cpi_annual c =
     (if \<exists>r\<in>set (rows c). kind_of (cell_at r ''value'') \<noteq> Number
      then Inl (Raised (TypeError ''mean''))
      else Inr (map (\<lambda>y. (y, mean (List.map_filter (\<lambda>r. num_val (cell_at r ''value''))
                                   (filter (\<lambda>r. cell_at r ''year'' = IntV y) (rows c)))))
                    (sort (remdups (List.map_filter (\<lambda>r. int_val (cell_at r ''year'')) (rows c))))))"

definition base_cpi :: "int \<Rightarrow> (int \<times> rat option) list \<Rightarrow> rat option" where
  "base_cpi base_year ca = mean (List.map_filter snd (filter (\<lambda>(y, v). y = base_year) ca))"

text \<open>The guard of lines 75 to 77, then the column \<^verbatim>\<open>cpi_index\<close> of line 79.\<close>

definition cpi_index :: "int \<Rightarrow> (int \<times> rat option) list \<Rightarrow> (int \<times> rat option \<times> rat option) list res" where
  "cpi_index base_year ca =
     (case base_cpi base_year ca of
        None \<Rightarrow> Inl (Stopped Warning ''Invalid CPI base year selected.'')
      | Some b \<Rightarrow>
          if b = 0 then Inl (Stopped Warning ''Invalid CPI base year selected.'')
          else Inr (map (\<lambda>(y, v). (y, v, map_option (\<lambda>x. x / b * 100) v)) ca))"

subsection \<open>Income data (lines 84 to 96)\<close>

text \<open>A topic that is not text prints as text without "income" in it (\<^verbatim>\<open>str(nan)\<close>).\<close>

definition topics :: "frame \<Rightarrow> string list" where
  "topics df = unique (List.map_filter (\<lambda>r. str_val (cell_at r ''topic'')) (rows df))"

definition income_topics :: "frame \<Rightarrow> string list" where
  "income_topics df = filter (\<lambda>t. contains ''income'' (py_lower t)) (topics df)"

definition income_topic :: "frame \<Rightarrow> string option" where
  "income_topic df =
     (if ''income_per_capita'' \<in> set (topics df) then Some ''income_per_capita''
      else case income_topics df of t # _ \<Rightarrow> Some t | [] \<Rightarrow> None)"

definition income_guard :: "frame \<Rightarrow> string res" where
  "income_guard df =
     (case income_topic df of
        None \<Rightarrow> Inl (Stopped Error
          ''This dataset doesn't include income data. Choose a different view or rebuild with BEA enabled.'')
      | Some t \<Rightarrow> Inr t)"

definition income :: "frame \<Rightarrow> string \<Rightarrow> frame" where
  "income df t = df\<lparr>rows := filter (\<lambda>r. cell_at r ''topic'' = Str t \<and> is_state_row r) (rows df)\<rparr>"

subsection \<open>Display (lines 101 to 123)\<close>

text \<open>
  Line 103 reads the name \<^verbatim>\<open>sel\<close>. No statement of the script assigns it, so the read
  raises NameError. The blocks below are written as functions of the frame the name would
  hold.
\<close>

definition sel :: "frame res" where
  "sel = Inl (Raised (NameError ''sel''))"

definition require_columns :: "string list \<Rightarrow> frame \<Rightarrow> unit res" where
  "require_columns cs df =
     (case filter (\<lambda>c. c \<notin> set (columns df)) cs of
        [] \<Rightarrow> Inr ()
      | c # _ \<Rightarrow> Inl (Raised (KeyError c)))"

definition empty_frame :: "frame \<Rightarrow> bool" where
  "empty_frame df = (rows df = [] \<or> columns df = [])"

text \<open>\<^verbatim>\<open>melt\<close>: one chart row (year, Type, Income) per row and value column.\<close>

definition melt :: "frame \<Rightarrow> (cell \<times> string \<times> cell) list res" where
  "melt df =
     bind (require_columns [''year'', ''value'', ''real_income''] df) (\<lambda>_.
     Inr (concat (map (\<lambda>v. map (\<lambda>r. (cell_at r ''year'', v, cell_at r v)) (rows df))
                      [''value'', ''real_income''])))"

definition display :: "frame \<Rightarrow> (cell \<times> string \<times> cell) list res" where
  "display s =
     (if empty_frame s then Inl (Stopped Warning ''No income data for selected state.'')
      else melt s)"

subsection \<open>Rankings (lines 130 to 144)\<close>

text \<open>
  The result of float arithmetic: a finite number, an infinity or NaN. Dividing by zero
  gives an infinity or NaN (numpy scalars do not raise); signed zeros are not modelled.
\<close>

datatype fl = NaN | NegInf | Fin rat | PosInf

fun fdiv :: "fl \<Rightarrow> fl \<Rightarrow> fl" where
  "fdiv (Fin a) (Fin b) =
     (if b \<noteq> 0 then Fin (a / b) else if a = 0 then NaN else if 0 < a then PosInf else NegInf)"
| "fdiv (Fin a) PosInf = Fin 0"
| "fdiv (Fin a) NegInf = Fin 0"
| "fdiv PosInf (Fin b) = (if 0 \<le> b then PosInf else NegInf)"
| "fdiv NegInf (Fin b) = (if 0 \<le> b then NegInf else PosInf)"
| "fdiv _ _ = NaN"

fun fsub :: "fl \<Rightarrow> fl \<Rightarrow> fl" where
  "fsub (Fin a) (Fin b) = Fin (a - b)"
| "fsub (Fin a) PosInf = NegInf"
| "fsub (Fin a) NegInf = PosInf"
| "fsub PosInf (Fin b) = PosInf"
| "fsub NegInf (Fin b) = NegInf"
| "fsub PosInf NegInf = PosInf"
| "fsub NegInf PosInf = NegInf"
| "fsub _ _ = NaN"

fun fmul :: "fl \<Rightarrow> fl \<Rightarrow> fl" where
  "fmul (Fin a) (Fin b) = Fin (a * b)"
| "fmul (Fin a) PosInf = (if a = 0 then NaN else if 0 < a then PosInf else NegInf)"
| "fmul (Fin a) NegInf = (if a = 0 then NaN else if 0 < a then NegInf else PosInf)"
| "fmul PosInf (Fin b) = (if b = 0 then NaN else if 0 < b then PosInf else NegInf)"
| "fmul NegInf (Fin b) = (if b = 0 then NaN else if 0 < b then NegInf else PosInf)"
| "fmul PosInf PosInf = PosInf"
| "fmul NegInf NegInf = PosInf"
| "fmul PosInf NegInf = NegInf"
| "fmul NegInf PosInf = NegInf"
| "fmul _ _ = NaN"

definition fl_of :: "cell \<Rightarrow> fl res" where
  "fl_of c =
     (case c of
        IntV i \<Rightarrow> Inr (Fin (of_int i))
      | FloatV q \<Rightarrow> Inr (Fin q)
      | Null \<Rightarrow> Inr NaN
      | _ \<Rightarrow> Inl (Raised (TypeError ''unsupported operand type(s) for /'')))"

text \<open>
  The aggregate \<^verbatim>\<open>lambda x: (x.iloc[-1] / x.iloc[0] - 1) * 100 if len(x) > 1 else None\<close>;
  \<^verbatim>\<open>None\<close> is stored as NaN.
\<close>

definition pct_change :: "cell list \<Rightarrow> fl res" where
  "pct_change x =
     (if length x > 1
      then bind (fl_of (last x)) (\<lambda>b. bind (fl_of (hd x)) (\<lambda>a.
             Inr (fmul (fsub (fdiv b a) (Fin 1)) (Fin 100))))
      else Inr NaN)"

fun map_res :: "('a \<Rightarrow> 'b res) \<Rightarrow> 'a list \<Rightarrow> 'b list res" where
  "map_res f [] = Inr []"
| "map_res f (x # xs) = bind (f x) (\<lambda>y. bind (map_res f xs) (\<lambda>ys. Inr (y # ys)))"

text \<open>Sort keys: rows without a year go last; \<open>fl_key\<close> orders the floats.\<close>

definition year_key :: "row \<Rightarrow> int \<times> rat" where
  "year_key r = (case cell_at r ''year'' of IntV y \<Rightarrow> (0, of_int y) | _ \<Rightarrow> (1, 0))"

fun fl_key :: "fl \<Rightarrow> int \<times> rat" where
  "fl_key NegInf = (- 1, 0)"
| "fl_key (Fin q) = (0, q)"
| "fl_key PosInf = (1, 0)"
| "fl_key NaN = (2, 0)"

definition desc_key :: "fl \<Rightarrow> int \<times> rat" where
  "desc_key p = (- fst (fl_key p), - snd (fl_key p))"

definition group :: "string \<Rightarrow> row list \<Rightarrow> row list" where
  "group g rs = filter (\<lambda>r. cell_at r ''geo'' = Str g) rs"

text \<open>
  \<^verbatim>\<open>sort_values\<close> uses the default sort, which is not stable: entries are ordered by key,
  and entries of equal key by the rank the library gives their positions (\<open>ties\<close>, from
  the key column), equal ranks by position.
\<close>

definition sort_values :: "lib \<Rightarrow> ('a \<Rightarrow> int \<times> rat) \<Rightarrow> 'a list \<Rightarrow> 'a list" where
  "sort_values L key xs =
     map snd (sort_key (\<lambda>(i, x). (key x, ties L (map key xs) i)) (zip [0..<length xs] xs))"

text \<open>
  \<^verbatim>\<open>groupby("geo")\<close> yields its groups in ascending key order and leaves out rows
  whose key is missing.
\<close>

definition growth :: "lib \<Rightarrow> frame \<Rightarrow> (string \<times> fl) list res" where
  "growth L inc =
     bind (require_columns [''year'', ''geo'', ''real_income''] inc) (\<lambda>_.
     bind (map_res (\<lambda>g. bind (pct_change (map (\<lambda>r. cell_at r ''real_income'')
                                               (group g (sort_values L year_key (rows inc)))))
                               (\<lambda>p. Inr (g, p)))
                   (sort (remdups (List.map_filter (\<lambda>r. str_val (cell_at r ''geo''))
                                                   (sort_values L year_key (rows inc))))))
          (\<lambda>agg. Inr (sort_values L (\<lambda>(g, p). desc_key p) (filter (\<lambda>(g, p). p \<noteq> NaN) agg))))"

definition top10 :: "(string \<times> fl) list \<Rightarrow> (string \<times> fl) list" where
  "top10 g = take 10 g"

definition bottom10 :: "lib \<Rightarrow> (string \<times> fl) list \<Rightarrow> (string \<times> fl) list" where
  "bottom10 L g = sort_values L (\<lambda>(s, p). fl_key p) (drop (length g - 10) g)"

subsection \<open>Download (lines 149 to 154)\<close>

text \<open>\<^verbatim>\<open>to_csv(index=False)\<close>: the header line and one record per row, no index column.\<close>

record download =
  label :: string
  data :: "string list \<times> cell list list"
  file_name :: string
  mime :: string

definition to_csv :: "frame \<Rightarrow> string list \<times> cell list list" where
  "to_csv df = (columns df, map (\<lambda>r. map (cell_at r) (columns df)) (rows df))"

definition download_button :: "string \<Rightarrow> frame \<Rightarrow> download" where
  "download_button state s =
     \<lparr>label = ''Download '' @ state @ '' real income data'',
      data = to_csv s,
      file_name = state @ ''_real_income.csv'',
      mime = ''text/csv''\<rparr>"

subsection \<open>The script\<close>

record page =
  chart :: "(cell \<times> string \<times> cell) list"
  top_states :: "(string \<times> fl) list"
  bottom_states :: "(string \<times> fl) list"
  export :: download

text \<open>
  One run: the uploaded file (if any), the base year and the position picked in the state
  selector. The year slider's value is never read, so it is not an input; the slider can
  still reject its bounds and end the run at line 62.
\<close>

definition app :: "lib \<Rightarrow> workbook option \<Rightarrow> int \<Rightarrow> nat \<Rightarrow> page res" where
  "app L uploaded_file base_year pick =
     (case uploaded_file of
        None \<Rightarrow> Inl (Stopped Info ''Please upload cleaned_economic_dataset.xlsx to continue.'')
      | Some file \<Rightarrow>
          bind (load_data L file) (\<lambda>df.
          bind (data_check df) (\<lambda>_.
          bind (year_bounds df) (\<lambda>b.
          bind (year_range L b) (\<lambda>_.
          bind (cpi_annual (cpi df)) (\<lambda>ca.
          bind (cpi_index base_year ca) (\<lambda>_.
          bind (income_guard df) (\<lambda>t.
          bind sel (\<lambda>s.
          bind (display s) (\<lambda>ch.
          bind (growth L (income df t)) (\<lambda>g.
          Inr \<lparr>chart = ch, top_states = top10 g, bottom_states = bottom10 L g,
               export = download_button (selectbox (state_options df) pick) s\<rparr>)))))))))))"

subsection \<open>What \<^verbatim>\<open>load_data\<close> does to one row\<close>

text \<open>
  Lines 30 to 33 act on each row separately (\<open>prepare\<close>), line 35 keeps a row or not
  (\<open>kept\<close>), line 36 adds the year (\<open>with_year\<close>); \<open>loaded\<close> is the resulting frame, from
  the normalised names and the records of the sheet.
\<close>

definition prepare :: "lib \<Rightarrow> row \<Rightarrow> row" where
  "prepare L r1 =
     (let r2 = AList.update ''date'' (to_datetime L (cell_at r1 ''date'')) r1;
          r3 = AList.update ''geo'' (str_upper (astype_str L (cell_at r2 ''geo''))) r2;
          r4 = AList.update ''series'' (astype_str L (cell_at r3 ''series'')) r3
      in AList.update ''topic'' (astype_str L (cell_at r4 ''topic'')) r4)"

definition kept :: "row \<Rightarrow> bool" where
  "kept r = (cell_at r ''date'' \<noteq> Null \<and> cell_at r ''value'' \<noteq> Null)"

definition with_year :: "row \<Rightarrow> row" where
  "with_year r = AList.update ''year'' (dt_year (cell_at r ''date'')) r"

definition loaded :: "lib \<Rightarrow> string list \<Rightarrow> cell list list \<Rightarrow> frame" where
  "loaded L names recs =
     \<lparr>columns = (if ''year'' \<in> set names then names else names @ [''year'']),
      rows = map with_year (filter kept (map (prepare L) (map (zip names) recs)))\<rparr>"

text \<open>
  The timestamp \<^verbatim>\<open>to_datetime\<close> is to find in a cell, said directly: the cell's own, or
  the one parsed from it; none in a missing cell. A row of the sheet survives the load
  when its date has one and its value is present.
\<close>

definition parsed_date :: "lib \<Rightarrow> cell \<Rightarrow> timestamp option" where
  "parsed_date L c = (case c of Stamp t \<Rightarrow> Some t | Null \<Rightarrow> None | _ \<Rightarrow> parse_datetime L c)"

definition survives :: "lib \<Rightarrow> row \<Rightarrow> bool" where
  "survives L r = (parsed_date L (cell_at r ''date'') \<noteq> None \<and> cell_at r ''value'' \<noteq> Null)"

subsection \<open>The CPI values of one year\<close>

text \<open>
  The numeric values of the national CPIAUCSL rows dated in year \<open>y\<close>, and the years that
  have such rows, read off the table directly.
\<close>

definition cpi_values :: "frame \<Rightarrow> int \<Rightarrow> rat list" where
  "cpi_values df y =
     List.map_filter (\<lambda>r. num_val (cell_at r ''value''))
       (filter (\<lambda>r. is_cpi_row r \<and> dt_year (cell_at r ''date'') = IntV y) (rows df))"

definition cpi_years :: "frame \<Rightarrow> int list" where
  "cpi_years df =
     sort (remdups (List.map_filter (\<lambda>r. int_val (dt_year (cell_at r ''date''))) (filter is_cpi_row (rows df))))"

subsection \<open>Sample workbooks\<close>

text \<open>
  The library of the samples: no text parses as a date, a missing cell stays missing
  under \<^verbatim>\<open>astype(str)\<close> and any other prints as a placeholder, two date columns are a
  ValueError, equal keys keep their order, and the slider wants its minimum below its
  maximum.
\<close>

definition lib0 :: lib where
  "lib0 =
     \<lparr>parse_datetime = (\<lambda>_. None),
      str_of = (\<lambda>c. if c = Null then None else Some ''?''),
      duplicate_header = (\<lambda>names.
        if 1 < length (filter (\<lambda>n. n = ''date'') names)
        then Some (ValueError ''to assemble mappings requires at least that [year, month, day] be specified'')
        else None),
      ties = (\<lambda>_ _. 0),
      slider = (\<lambda>lo hi v.
        if lo < hi then Inr v
        else Inl (Raised (StreamlitError ''Slider min_value must be less than the max_value'')))\<rparr>"

definition day :: "int \<Rightarrow> cell" where
  "day y = Stamp \<lparr>ts_year = y, ts_month = 1, ts_day = 1\<rparr>"

definition obs :: "cell \<Rightarrow> string \<Rightarrow> string \<Rightarrow> string \<Rightarrow> string \<Rightarrow> cell \<Rightarrow> cell list" where
  "obs d g l s t v = [d, Str g, Str l, Str s, Str t, v]"

definition sheet0 :: sheet where
  "sheet0 =
     \<lparr>header = [Str ''Date'', Str '' geo'', Str ''geo_level'', Str ''series'', Str ''topic'', Str ''Value ''],
      records = [obs (day 2017) ''us'' ''national'' ''CPIAUCSL'' ''cpi'' (FloatV 240),
                 obs (day 2017) ''us'' ''national'' ''CPIAUCSL'' ''cpi'' (FloatV 250),
                 obs (day 2018) ''us'' ''national'' ''CPIAUCSL'' ''cpi'' (FloatV 260),
                 obs (day 2017) ''md'' ''state'' ''BEA'' ''income_per_capita'' (IntV 50000),
                 obs (day 2018) ''md'' ''state'' ''BEA'' ''income_per_capita'' (IntV 52000),
                 obs Null ''va'' ''state'' ''BEA'' ''income_per_capita'' (IntV 1),
                 obs (Str ''n/a'') ''va'' ''state'' ''BEA'' ''income_per_capita'' (IntV 2),
                 obs (day 2018) ''va'' ''state'' ''BEA'' ''income_per_capita'' Null]\<rparr>"

definition book0 :: workbook where
  "book0 = [(''cleaned_long'', sheet0)]"

text \<open>The table \<^verbatim>\<open>load_data\<close> makes of it: three rows are gone, the names are normalised.\<close>

definition row0 :: "int \<Rightarrow> string \<Rightarrow> string \<Rightarrow> string \<Rightarrow> string \<Rightarrow> cell \<Rightarrow> row" where
  "row0 y g l s t v =
     [(''date'', day y), (''geo'', Str g), (''geo_level'', Str l), (''series'', Str s),
      (''topic'', Str t), (''value'', v), (''year'', IntV y)]"

definition frame0 :: frame where
  "frame0 =
     \<lparr>columns = [''date'', ''geo'', ''geo_level'', ''series'', ''topic'', ''value'', ''year''],
      rows = [row0 2017 ''US'' ''national'' ''CPIAUCSL'' ''cpi'' (FloatV 240),
              row0 2017 ''US'' ''national'' ''CPIAUCSL'' ''cpi'' (FloatV 250),
              row0 2018 ''US'' ''national'' ''CPIAUCSL'' ''cpi'' (FloatV 260),
              row0 2017 ''MD'' ''state'' ''BEA'' ''income_per_capita'' (IntV 50000),
              row0 2018 ''MD'' ''state'' ''BEA'' ''income_per_capita'' (IntV 52000)]\<rparr>"







subsection \<open>An income frame with a \<^verbatim>\<open>real_income\<close> column\<close>

text \<open>
  The script never assigns \<open>real_income\<close>; the income frame of line 96 has that column only
  when the sheet itself brings one. \<open>growth_values\<close> is the series the aggregate of line 133
  sees for one state.
\<close>

definition growth_values :: "lib \<Rightarrow> frame \<Rightarrow> string \<Rightarrow> cell list" where
  "growth_values L inc s =
     map (\<lambda>r. cell_at r ''real_income'') (group s (sort_values L year_key (rows inc)))"

definition row1 :: "int \<Rightarrow> string \<Rightarrow> cell \<Rightarrow> cell \<Rightarrow> row" where
  "row1 y g v ri =
     [(''date'', day y), (''geo'', Str g), (''geo_level'', Str ''state''), (''series'', Str ''BEA''),
      (''topic'', Str ''income_per_capita''), (''value'', v), (''real_income'', ri), (''year'', IntV y)]"

definition frame1 :: frame where
  "frame1 =
     \<lparr>columns = [''date'', ''geo'', ''geo_level'', ''series'', ''topic'', ''value'', ''real_income'', ''year''],
      rows = [row1 2018 ''MD'' (IntV 52000) (FloatV 104),
              row1 2017 ''MD'' (IntV 50000) (FloatV 100),
              row1 2017 ''CA'' (IntV 60000) (FloatV 100),
              row1 2018 ''CA'' (IntV 66000) (FloatV 110),
              row1 2017 ''VA'' (IntV 40000) (FloatV 50),
              row1 2017 ''TX'' (IntV 30000) Null,
              row1 2018 ''TX'' (IntV 31000) (FloatV 5)]\<rparr>"

subsection \<open>Samples at the edges\<close>

text \<open>
  A sheet with one year only, one with two date columns, one with a number as header, and
  an income frame where a state has two rows in its first year.
\<close>

definition sheet_one :: sheet where
  "sheet_one =
     \<lparr>header = [Str ''date'', Str ''geo'', Str ''geo_level'', Str ''series'', Str ''topic'', Str ''value''],
      records = [obs (day 2017) ''US'' ''national'' ''CPIAUCSL'' ''cpi'' (FloatV 245)]\<rparr>"

definition sheet_dup :: sheet where
  "sheet_dup =
     \<lparr>header = [Str ''Date'', Str ''date '', Str ''geo'', Str ''geo_level'', Str ''series'', Str ''topic'',
                Str ''value''],
      records = [day 2017 # obs (day 2017) ''US'' ''national'' ''CPIAUCSL'' ''cpi'' (FloatV 245)]\<rparr>"

definition sheet_num :: sheet where
  "sheet_num =
     \<lparr>header = [Str ''date'', IntV 2017, Str ''geo_level'', Str ''series'', Str ''topic'', Str ''value''],
      records = [obs (day 2017) ''US'' ''national'' ''CPIAUCSL'' ''cpi'' (FloatV 245)]\<rparr>"

definition frame_ties :: frame where
  "frame_ties =
     \<lparr>columns = [''date'', ''geo'', ''geo_level'', ''series'', ''topic'', ''value'', ''real_income'', ''year''],
      rows = [row1 2000 ''AA'' (IntV 1) (FloatV 100),
              row1 2000 ''AA'' (IntV 2) (FloatV 400),
              row1 2001 ''AA'' (IntV 3) (FloatV 50)]\<rparr>"

section \<open>Properties\<close>

subsection \<open>Basic facts\<close>

lemma bind_eq_Inr: "bind m f = Inr y \<longleftrightarrow> (\<exists>x. m = Inr x \<and> f x = Inr y)"
  by (cases m) (auto simp: bind_def)

lemma bind_Inr [simp]: "bind (Inr x) f = f x"
  by (simp add: bind_def)

lemma bind_Inl [simp]: "bind (Inl h) f = Inl h"
  by (simp add: bind_def)

lemma cell_at_update: "cell_at (AList.update k v r) c = (if c = k then v else cell_at r c)"
  by (simp add: cell_at_def update_conv')

lemma rows_assign: "rows (assign c f df) = map (\<lambda>r. AList.update c (f r) r) (rows df)"
  by (simp add: assign_def)

lemma columns_assign: "columns (assign c f df) = (if c \<in> set (columns df) then columns df else columns df @ [c])"
  by (simp add: assign_def)

lemma apply_col_eq_Inr:
  "apply_col c g df = Inr df' \<longleftrightarrow> c \<in> set (columns df) \<and> df' = assign c (\<lambda>r. g (cell_at r c)) df"
  by (auto simp: apply_col_def)

lemma dropna_eq_Inr:
  "dropna cs df = Inr df' \<longleftrightarrow>
     set cs \<subseteq> set (columns df) \<and>
     df' = df\<lparr>rows := filter (\<lambda>r. \<forall>c\<in>set cs. cell_at r c \<noteq> Null) (rows df)\<rparr>"
  by (auto simp: dropna_def filter_empty_conv split: list.splits)
     (metis filter_eq_Cons_iff list.set_intros(1) in_set_conv_decomp subsetD)+













lemma apply_col_ok:
  "c \<in> set (columns df) \<Longrightarrow> apply_col c g df = Inr (assign c (\<lambda>r. g (cell_at r c)) df)"
  by (simp add: apply_col_def)

lemma columns_assign_mem: "c \<in> set (columns df) \<Longrightarrow> columns (assign c f df) = columns df"
  by (simp add: assign_def)

lemma dropna_ok:
  "set cs \<subseteq> set (columns df) \<Longrightarrow>
   dropna cs df = Inr (df\<lparr>rows := filter (\<lambda>r. \<forall>c\<in>set cs. cell_at r c \<noteq> Null) (rows df)\<rparr>)"
  by (simp add: dropna_eq_Inr)

lemma load_data_sheet:
  assumes "read_excel file ''cleaned_long'' = Inr sh"
    and "header_names (header sh) = Inr names"
    and "header_clash L names = None"
  shows "load_data L file =
     (case filter (\<lambda>c. c \<notin> set names) [''date'', ''geo'', ''series'', ''topic'', ''value''] of
        [] \<Rightarrow> Inr (loaded L names (records sh))
      | c # _ \<Rightarrow> Inl (Raised (KeyError c)))"
proof -
  define raw where "raw = map (zip names) (records sh)"
  define d0 where "d0 = set_columns names sh"
  define d1 where "d1 = assign ''date'' (\<lambda>r. to_datetime L (cell_at r ''date'')) d0"
  define d2 where "d2 = assign ''geo'' (\<lambda>r. str_upper (astype_str L (cell_at r ''geo''))) d1"
  define d3 where "d3 = assign ''series'' (\<lambda>r. astype_str L (cell_at r ''series'')) d2"
  define d4 where "d4 = assign ''topic'' (\<lambda>r. astype_str L (cell_at r ''topic'')) d3"
  have l: "load_data L file =
     bind (apply_col ''date'' (to_datetime L) d0) (\<lambda>df1.
     bind (apply_col ''geo'' (\<lambda>c. str_upper (astype_str L c)) df1) (\<lambda>df2.
     bind (apply_col ''series'' (astype_str L) df2) (\<lambda>df3.
     bind (apply_col ''topic'' (astype_str L) df3) (\<lambda>df4.
     bind (dropna [''date'', ''value''] df4) (\<lambda>df5.
     Inr (assign ''year'' (\<lambda>r. dt_year (cell_at r ''date'')) df5))))))"
    by (simp add: load_data_def assms d0_def)
  have c0: "columns d0 = names" by (simp add: d0_def set_columns_def)
  have a1: "apply_col ''date'' (to_datetime L) d0 =
      (if ''date'' \<in> set names then Inr d1 else Inl (Raised (KeyError ''date'')))"
    by (simp add: apply_col_def c0 d1_def)
  have c1: "''date'' \<in> set names \<Longrightarrow> columns d1 = names"
    by (simp add: d1_def columns_assign_mem c0)
  have a2: "''date'' \<in> set names \<Longrightarrow> apply_col ''geo'' (\<lambda>c. str_upper (astype_str L c)) d1 =
      (if ''geo'' \<in> set names then Inr d2 else Inl (Raised (KeyError ''geo'')))"
    by (simp add: apply_col_def c1 d2_def)
  have c2: "''date'' \<in> set names \<Longrightarrow> ''geo'' \<in> set names \<Longrightarrow> columns d2 = names"
    by (simp add: d2_def columns_assign_mem c1)
  have a3: "''date'' \<in> set names \<Longrightarrow> ''geo'' \<in> set names \<Longrightarrow>
      apply_col ''series'' (astype_str L) d2 =
      (if ''series'' \<in> set names then Inr d3 else Inl (Raised (KeyError ''series'')))"
    by (simp add: apply_col_def c2 d3_def)
  have c3: "''date'' \<in> set names \<Longrightarrow> ''geo'' \<in> set names \<Longrightarrow> ''series'' \<in> set names \<Longrightarrow>
      columns d3 = names"
    by (simp add: d3_def columns_assign_mem c2)
  have a4: "''date'' \<in> set names \<Longrightarrow> ''geo'' \<in> set names \<Longrightarrow> ''series'' \<in> set names \<Longrightarrow>
      apply_col ''topic'' (astype_str L) d3 =
      (if ''topic'' \<in> set names then Inr d4 else Inl (Raised (KeyError ''topic'')))"
    by (simp add: apply_col_def c3 d4_def)
  have c4: "''date'' \<in> set names \<Longrightarrow> ''geo'' \<in> set names \<Longrightarrow> ''series'' \<in> set names \<Longrightarrow>
      ''topic'' \<in> set names \<Longrightarrow> columns d4 = names"
    by (simp add: d4_def columns_assign_mem c3)
  have r4: "rows d4 = map (prepare L) raw"
    by (simp add: d4_def d3_def d2_def d1_def d0_def set_columns_def rows_assign prepare_def Let_def comp_def
        raw_def [symmetric])
  have a5: "''date'' \<in> set names \<Longrightarrow> ''geo'' \<in> set names \<Longrightarrow> ''series'' \<in> set names \<Longrightarrow>
      ''topic'' \<in> set names \<Longrightarrow>
      dropna [''date'', ''value''] d4 =
      (if ''value'' \<in> set names
       then Inr (d4\<lparr>rows := filter kept (map (prepare L) raw)\<rparr>)
       else Inl (Raised (KeyError ''value'')))"
    by (simp add: dropna_def c4 r4 kept_def [abs_def])
  have a6: "assign ''year'' (\<lambda>r. dt_year (cell_at r ''date''))
        (d4\<lparr>rows := filter kept (map (prepare L) raw)\<rparr>) =
      loaded L names (records sh)"
    if "''date'' \<in> set names" "''geo'' \<in> set names" "''series'' \<in> set names" "''topic'' \<in> set names"
  proof -
    from that have "columns d4 = names" by (rule c4)
    then show ?thesis
      unfolding assign_def loaded_def with_year_def [abs_def] raw_def by simp
  qed
  have "load_data L file =
     (if ''date'' \<notin> set names then Inl (Raised (KeyError ''date''))
      else if ''geo'' \<notin> set names then Inl (Raised (KeyError ''geo''))
      else if ''series'' \<notin> set names then Inl (Raised (KeyError ''series''))
      else if ''topic'' \<notin> set names then Inl (Raised (KeyError ''topic''))
      else if ''value'' \<notin> set names then Inl (Raised (KeyError ''value''))
      else Inr (loaded L names (records sh)))"
    by (simp add: l a1 a2 a3 a4 a5 a6)
  then show ?thesis
    by simp
qed

lemma load_data_eq_Inr:
  "load_data L file = Inr df \<longleftrightarrow>
     (\<exists>sh names. read_excel file ''cleaned_long'' = Inr sh \<and>
        header_names (header sh) = Inr names \<and> header_clash L names = None \<and>
        set [''date'', ''geo'', ''series'', ''topic'', ''value''] \<subseteq> set names \<and>
        df = loaded L names (records sh))"
proof (cases "read_excel file ''cleaned_long''")
  case (Inl h)
  then show ?thesis by (simp add: load_data_def)
next
  case sh: (Inr sh)
  show ?thesis
  proof (cases "header_names (header sh)")
    case (Inl h)
    with sh show ?thesis by (simp add: load_data_def)
  next
    case names: (Inr names)
    show ?thesis
    proof (cases "header_clash L names")
      case (Some e)
      with sh names show ?thesis by (simp add: load_data_def)
    next
      case None
      have "load_data L file = Inr df \<longleftrightarrow>
          set [''date'', ''geo'', ''series'', ''topic'', ''value''] \<subseteq> set names \<and>
          df = loaded L names (records sh)"
        unfolding load_data_sheet [OF sh names None]
        by (auto simp: filter_empty_conv split: list.splits)
      with sh names None show ?thesis
        by auto
    qed
  qed
qed

lemma to_datetime_parsed:
  "to_datetime L c = (case parsed_date L c of Some t \<Rightarrow> Stamp t | None \<Rightarrow> Null)"
  by (simp add: to_datetime_def parsed_date_def split: cell.splits option.splits)

lemma prepare_cells:
  "cell_at (prepare L r) ''date'' = to_datetime L (cell_at r ''date'')"
  "cell_at (prepare L r) ''geo'' = str_upper (astype_str L (cell_at r ''geo''))"
  "cell_at (prepare L r) ''series'' = astype_str L (cell_at r ''series'')"
  "cell_at (prepare L r) ''topic'' = astype_str L (cell_at r ''topic'')"
  "cell_at (prepare L r) ''value'' = cell_at r ''value''"
  by (simp_all add: prepare_def Let_def cell_at_update)

lemma with_year_cells:
  "cell_at (with_year r) ''year'' = dt_year (cell_at r ''date'')"
  "c \<noteq> ''year'' \<Longrightarrow> cell_at (with_year r) c = cell_at r c"
  by (simp_all add: with_year_def cell_at_update)

lemma kept_prepare: "kept (prepare L r) \<longleftrightarrow> survives L r"
  by (simp add: kept_def survives_def prepare_cells to_datetime_parsed split: option.splits)

lemma loaded_row:
  assumes "load_data L file = Inr df" and "r \<in> set (rows df)"
  obtains r1 where "r = with_year (prepare L r1)" and "survives L r1"
proof -
  from assms(1) [unfolded load_data_eq_Inr] obtain sh :: sheet and names where "df = loaded L names (records sh)"
    by (elim exE conjE)
  then have "rows df = map with_year (filter kept (map (prepare L) (map (zip names) (records sh))))"
    by (simp add: loaded_def)
  with assms(2) obtain r1 where "r = with_year (prepare L r1)" "kept (prepare L r1)"
    by auto
  with that show thesis by (simp add: kept_prepare)
qed

lemma set_map_filter: "set (List.map_filter f xs) = {y. \<exists>x\<in>set xs. f x = Some y}"
  by (induction xs) (auto simp: List.map_filter_simps split: option.splits)

lemma str_val_eq: "str_val c = Some s \<longleftrightarrow> c = Str s"
  by (cases c) (auto simp: str_val_def)

lemma int_val_eq: "int_val c = Some i \<longleftrightarrow> c = IntV i"
  by (cases c) (auto simp: int_val_def)

subsection \<open>The sample workbooks, evaluated\<close>



lemma sample_loaded: "load_data lib0 book0 = Inr frame0"
  by code_simp




subsection \<open>Loading\<close>

text \<open>
  Claim C7. Every row that survives \<^verbatim>\<open>load_data\<close> has a timestamp in \<open>date\<close>, and its
  \<open>year\<close> is the integer calendar year of that timestamp.
\<close>

theorem year_is_calendar_year:
  assumes "load_data L file = Inr df" and "r \<in> set (rows df)"
  shows "\<exists>t. cell_at r ''date'' = Stamp t \<and> cell_at r ''year'' = IntV (ts_year t)"
proof -
  from assms obtain r1 where r: "r = with_year (prepare L r1)" and k: "survives L r1"
    by (rule loaded_row)
  from k obtain t where t: "parsed_date L (cell_at r1 ''date'') = Some t"
    by (auto simp: survives_def)
  then have "cell_at (prepare L r1) ''date'' = Stamp t"
    by (simp add: prepare_cells to_datetime_parsed)
  then show ?thesis
    by (intro exI [of _ t]) (simp add: r with_year_cells dt_year_def)
qed

theorem year_is_calendar_year_witness:
  "load_data lib0 book0 = Inr frame0 \<and> hd (rows frame0) \<in> set (rows frame0) \<and>
   (\<exists>t. cell_at (hd (rows frame0)) ''date'' = Stamp t \<and>
        cell_at (hd (rows frame0)) ''year'' = IntV (ts_year t))"
proof -
  have m: "hd (rows frame0) \<in> set (rows frame0)"
    by (simp add: frame0_def)
  from sample_loaded m year_is_calendar_year [OF sample_loaded m] show ?thesis
    by blast
qed


lemma astype_str_text [simp]: "astype_str L (Str s) = Str s"
  by (simp add: astype_str_def)






subsection \<open>The state selector\<close>

text \<open>
  Claim C9. The state list holds exactly the distinct two-character \<open>geo\<close> codes of the rows
  whose \<open>geo_level\<close> is "state", in ascending order; the selector offers that list, or the
  single option "MD" when it is empty.
\<close>

theorem state_list_exact:
  "set (state_list df) =
     {s. \<exists>r\<in>set (rows df). cell_at r ''geo_level'' = Str ''state'' \<and> cell_at r ''geo'' = Str s \<and> length s = 2} \<and>
   sorted (state_list df) \<and> distinct (state_list df) \<and>
   state_options df = (if state_list df = [] then [''MD''] else state_list df)"
proof -
  have "set (state_list df) =
     {s. \<exists>r\<in>set (rows df). cell_at r ''geo_level'' = Str ''state'' \<and> cell_at r ''geo'' = Str s \<and> length s = 2}"
    by (auto simp: state_list_def set_map_filter is_state_row_def str_val_eq)
  moreover have "sorted (state_list df)" "distinct (state_list df)"
    by (simp_all add: state_list_def)
  ultimately show ?thesis
    by (simp add: state_options_def)
qed

theorem state_list_exact_witness:
  "state_list frame0 = [''MD''] \<and> sorted (state_list frame0) \<and>
   state_options frame0 = [''MD''] \<and>
   state_options \<lparr>columns = [''geo'', ''geo_level''], rows = []\<rparr> = [''MD'']"
proof -
  have e: "state_list frame0 = [''MD'']"
    by code_simp
  have f: "state_list \<lparr>columns = [''geo'', ''geo_level''], rows = []\<rparr> = []"
    by code_simp
  from state_list_exact [of frame0]
  have a: "sorted (state_list frame0) \<and>
      state_options frame0 = (if state_list frame0 = [] then [''MD''] else state_list frame0)"
    by blast
  from state_list_exact [of "\<lparr>columns = [''geo'', ''geo_level''], rows = []\<rparr>"]
  have b: "state_options \<lparr>columns = [''geo'', ''geo_level''], rows = []\<rparr> =
      (if state_list \<lparr>columns = [''geo'', ''geo_level''], rows = []\<rparr> = [] then [''MD'']
       else state_list \<lparr>columns = [''geo'', ''geo_level''], rows = []\<rparr>)"
    by blast
  from a b e f show ?thesis
    by simp
qed

subsection \<open>The CPI index\<close>

lemma rows_cpi:
  "rows (cpi df) = map (\<lambda>r. AList.update ''year'' (dt_year (cell_at r ''date'')) r) (filter is_cpi_row (rows df))"
  by (simp add: cpi_def rows_assign)

lemma cpi_group_values:
  "List.map_filter (\<lambda>r. num_val (cell_at r ''value'')) (filter (\<lambda>r. cell_at r ''year'' = IntV y) (rows (cpi df)))
     = cpi_values df y"
  by (simp add: rows_cpi cpi_values_def List.map_filter_def filter_map comp_def cell_at_update)

lemma cpi_group_keys:
  "sort (remdups (List.map_filter (\<lambda>r. int_val (cell_at r ''year'')) (rows (cpi df)))) = cpi_years df"
  by (simp add: rows_cpi cpi_years_def List.map_filter_def filter_map comp_def cell_at_update)

lemma cpi_annual_eq:
  "cpi_annual (cpi df) =
     (if \<exists>r\<in>set (rows df). is_cpi_row r \<and> kind_of (cell_at r ''value'') \<noteq> Number
      then Inl (Raised (TypeError ''mean''))
      else Inr (map (\<lambda>y. (y, mean (cpi_values df y))) (cpi_years df)))"
proof -
  have "(\<exists>r\<in>set (rows (cpi df)). kind_of (cell_at r ''value'') \<noteq> Number) \<longleftrightarrow>
        (\<exists>r\<in>set (rows df). is_cpi_row r \<and> kind_of (cell_at r ''value'') \<noteq> Number)"
    by (auto simp: rows_cpi cell_at_update)
  then show ?thesis
    unfolding cpi_annual_def cpi_group_values cpi_group_keys by simp
qed

lemma filter_key_distinct:
  "distinct ys \<Longrightarrow> filter (\<lambda>(y, v). y = b) (map (\<lambda>y. (y, f y)) ys) = (if b \<in> set ys then [(b, f b)] else [])"
  by (induction ys) auto

lemma cpi_values_year:
  assumes "cpi_values df y \<noteq> []"
  shows "y \<in> set (cpi_years df)"
proof -
  from assms have "set (cpi_values df y) \<noteq> {}" by simp
  then obtain r where "r \<in> set (rows df)" "is_cpi_row r" "dt_year (cell_at r ''date'') = IntV y"
    by (auto simp: cpi_values_def set_map_filter)
  then show ?thesis
    by (auto simp: cpi_years_def set_map_filter int_val_eq)
qed

lemma base_cpi_eq:
  "base_cpi b (map (\<lambda>y. (y, mean (cpi_values df y))) (cpi_years df)) = mean (cpi_values df b)"
proof -
  have d: "distinct (cpi_years df)" by (simp add: cpi_years_def)
  show ?thesis
  proof (cases "b \<in> set (cpi_years df)")
    case True
    then show ?thesis
      by (simp add: base_cpi_def filter_key_distinct [OF d] List.map_filter_def mean_def)
  next
    case False
    with cpi_values_year [of df b] have "cpi_values df b = []" by blast
    with False show ?thesis
      by (simp add: base_cpi_def filter_key_distinct [OF d] List.map_filter_def mean_def)
  qed
qed

text \<open>
  Claim C2. When the CPI values are numbers and the mean \<open>b\<close> of the base year's CPI values
  exists and is not zero, the script gets past the guard, and the table it builds has one
  row per CPI year \<open>y\<close>: the mean of that year's CPI values, and that mean divided by \<open>b\<close>
  and multiplied by 100 as \<open>cpi_index\<close>. The base year's row has index 100.
\<close>

theorem cpi_index_formula:
  assumes "\<forall>r\<in>set (rows df). is_cpi_row r \<longrightarrow> kind_of (cell_at r ''value'') = Number"
    and "mean (cpi_values df base_year) = Some b" and "b \<noteq> 0"
  shows "\<exists>ca. cpi_annual (cpi df) = Inr ca \<and>
           cpi_index base_year ca =
             Inr (map (\<lambda>y. (y, mean (cpi_values df y),
                             map_option (\<lambda>m. m / b * 100) (mean (cpi_values df y)))) (cpi_years df)) \<and>
           (base_year, Some b, Some 100) \<in>
             set (map (\<lambda>y. (y, mean (cpi_values df y),
                             map_option (\<lambda>m. m / b * 100) (mean (cpi_values df y)))) (cpi_years df))"
proof -
  let ?ca = "map (\<lambda>y. (y, mean (cpi_values df y))) (cpi_years df)"
  from assms(1) have a: "cpi_annual (cpi df) = Inr ?ca"
    by (auto simp: cpi_annual_eq)
  have "base_cpi base_year ?ca = Some b"
    by (simp add: base_cpi_eq assms(2))
  with assms(3) have i: "cpi_index base_year ?ca =
      Inr (map (\<lambda>y. (y, mean (cpi_values df y),
                      map_option (\<lambda>m. m / b * 100) (mean (cpi_values df y)))) (cpi_years df))"
    by (simp add: cpi_index_def comp_def)
  from assms(2) have "cpi_values df base_year \<noteq> []"
    by (auto simp: mean_def)
  then have "base_year \<in> set (cpi_years df)"
    by (rule cpi_values_year)
  with assms(2,3) have "(base_year, Some b, Some 100) \<in>
             set (map (\<lambda>y. (y, mean (cpi_values df y),
                             map_option (\<lambda>m. m / b * 100) (mean (cpi_values df y)))) (cpi_years df))"
    by (auto simp: image_iff intro!: bexI [of _ base_year])
  with a i show ?thesis by blast
qed

theorem cpi_index_formula_witness:
  "mean (cpi_values frame0 2017) = Some 245 \<and>
   bind (cpi_annual (cpi frame0)) (cpi_index 2017) =
     Inr [(2017, Some 245, Some 100), (2018, Some 260, Some (5200 / 49))]"
proof -
  have h1: "\<forall>r\<in>set (rows frame0). is_cpi_row r \<longrightarrow> kind_of (cell_at r ''value'') = Number"
    by code_simp
  have h2: "mean (cpi_values frame0 2017) = Some 245"
    by code_simp
  have h3: "(245::rat) \<noteq> 0"
    by simp
  have v: "map (\<lambda>y. (y, mean (cpi_values frame0 y),
                     map_option (\<lambda>m. m / 245 * 100) (mean (cpi_values frame0 y))))
             (cpi_years frame0) =
           [(2017, Some 245, Some 100), (2018, Some 260, Some (5200 / 49))]"
    by code_simp
  from cpi_index_formula [OF h1 h2 h3] obtain ca where
    "cpi_annual (cpi frame0) = Inr ca"
    "cpi_index 2017 ca =
       Inr (map (\<lambda>y. (y, mean (cpi_values frame0 y),
                     map_option (\<lambda>m. m / 245 * 100) (mean (cpi_values frame0 y))))
             (cpi_years frame0))"
    by blast
  with v h2 show ?thesis
    by simp
qed



subsection \<open>Missing columns, missing income data\<close>






subsection \<open>Rankings\<close>

text \<open>
  The expression of lines 130 to 137, as a function of the income frame. In the script as
  it stands the run ends before this point (see the last subsection).
\<close>

lemma map_snd_enumerate: "map snd (zip [0..<length xs] xs) = xs"
  by (simp add: map_snd_zip)

lemma set_sort_values [simp]: "set (sort_values L key xs) = set xs"
proof -
  have "set (sort_values L key xs) = snd ` set (zip [0..<length xs] xs)"
    by (simp add: sort_values_def)
  also have "\<dots> = set (map snd (zip [0..<length xs] xs))"
    by (simp only: set_map)
  also have "\<dots> = set xs"
    by (simp only: map_snd_enumerate)
  finally show ?thesis .
qed

lemma length_filter_sort_values:
  "length (filter P (sort_values L key xs)) = length (filter P xs)"
proof -
  let ?zs = "zip [0..<length xs] xs"
  let ?k = "\<lambda>(i, x). (key x, ties L (map key xs) i)"
  have "filter P (sort_values L key xs) = map snd (filter (P \<circ> snd) (sort_key ?k ?zs))"
    by (simp add: sort_values_def filter_map)
  also have "filter (P \<circ> snd) (sort_key ?k ?zs) = sort_key ?k (filter (P \<circ> snd) ?zs)"
    by (rule filter_sort)
  finally have a: "length (filter P (sort_values L key xs)) = length (map snd (filter (P \<circ> snd) ?zs))"
    by simp
  have "filter P (map snd ?zs) = map snd (filter (P \<circ> snd) ?zs)"
    by (rule filter_map)
  then have "filter P xs = map snd (filter (P \<circ> snd) ?zs)"
    by (simp only: map_snd_enumerate)
  with a show ?thesis
    by simp
qed

lemma map_res_keyed:
  "map_res (\<lambda>k. bind (h k) (\<lambda>p. Inr (k, p))) ks = Inr agg \<Longrightarrow>
     map fst agg = ks \<and> (\<forall>(k, p)\<in>set agg. h k = Inr p)"
proof (induction ks arbitrary: agg)
  case Nil
  then show ?case by simp
next
  case (Cons k ks)
  from Cons.prems obtain p rest where p: "h k = Inr p"
    and rest: "map_res (\<lambda>k. bind (h k) (\<lambda>p. Inr (k, p))) ks = Inr rest"
    and agg: "agg = (k, p) # rest"
    by (auto simp: bind_eq_Inr)
  from Cons.IH [OF rest] p agg show ?case by simp
qed

lemma growth_eq_Inr:
  assumes "growth L inc = Inr g"
  obtains agg where
    "map fst agg = sort (remdups (List.map_filter (\<lambda>r. str_val (cell_at r ''geo'')) (rows inc)))"
    "\<forall>(s, p)\<in>set agg. pct_change (growth_values L inc s) = Inr p"
    "set g = set (filter (\<lambda>(s, p). p \<noteq> NaN) agg)"
proof -
  from assms obtain agg where
    m: "map_res (\<lambda>k. bind (pct_change (map (\<lambda>r. cell_at r ''real_income'')
                                               (group k (sort_values L year_key (rows inc)))))
                               (\<lambda>p. Inr (k, p)))
                   (sort (remdups (List.map_filter (\<lambda>r. str_val (cell_at r ''geo''))
                                                   (sort_values L year_key (rows inc))))) = Inr agg"
    and g: "g = sort_values L (\<lambda>(s, p). desc_key p) (filter (\<lambda>(s, p). p \<noteq> NaN) agg)"
    unfolding growth_def bind_eq_Inr by blast
  have k: "sort (remdups (List.map_filter (\<lambda>r. str_val (cell_at r ''geo'')) (sort_values L year_key (rows inc))))
      = sort (remdups (List.map_filter (\<lambda>r. str_val (cell_at r ''geo'')) (rows inc)))"
    by (rule sorted_distinct_set_unique) (simp_all add: set_map_filter)
  have v: "map (\<lambda>r. cell_at r ''real_income'') (group k (sort_values L year_key (rows inc))) =
      growth_values L inc k" for k
    by (simp add: growth_values_def)
  from map_res_keyed [OF m [unfolded v]]
  have a1: "map fst agg =
      sort (remdups (List.map_filter (\<lambda>r. str_val (cell_at r ''geo'')) (sort_values L year_key (rows inc))))"
    and a2: "\<forall>(s, p)\<in>set agg. pct_change (growth_values L inc s) = Inr p"
    by blast+
  from a1 have a3: "map fst agg = sort (remdups (List.map_filter (\<lambda>r. str_val (cell_at r ''geo'')) (rows inc)))"
    unfolding k .
  from g have a4: "set g = set (filter (\<lambda>(s, p). p \<noteq> NaN) agg)"
    by simp
  from a3 a2 a4 show thesis
    by (rule that)
qed

lemma length_growth_values: "length (growth_values L inc s) = length (group s (rows inc))"
  by (simp add: growth_values_def group_def length_filter_sort_values)

lemma sample1_growth: "growth lib0 frame1 = Inr [(''CA'', Fin 10), (''MD'', Fin 4)]"
  by code_simp

lemma sample1_groups:
  "length (group ''MD'' (rows frame1)) = 2 \<and> length (group ''VA'' (rows frame1)) = 1 \<and>
   length (group ''TX'' (rows frame1)) = 2"
  by code_simp

text \<open>
  Claim C10. A state with at most one observation in the income frame has no row in the
  growth table: every row of the table comes from a state with at least two observations.
\<close>

theorem growth_needs_two_observations:
  assumes "growth L inc = Inr g"
  shows "(\<forall>s. length (group s (rows inc)) \<le> 1 \<longrightarrow> s \<notin> fst ` set g) \<and>
         (\<forall>(s, p)\<in>set g. 2 \<le> length (group s (rows inc)))"
proof -
  from assms obtain agg where
    a: "\<forall>(s, p)\<in>set agg. pct_change (growth_values L inc s) = Inr p"
    and g: "set g = set (filter (\<lambda>(s, p). p \<noteq> NaN) agg)"
    by (rule growth_eq_Inr)
  have two: "2 \<le> length (group s (rows inc))" if "(s, p) \<in> set g" for s p
  proof (rule ccontr)
    assume "\<not> 2 \<le> length (group s (rows inc))"
    then have "pct_change (growth_values L inc s) = Inr NaN"
      by (simp add: pct_change_def length_growth_values)
    moreover from that g have "(s, p) \<in> set agg" "p \<noteq> NaN" by auto
    ultimately show False using a by auto
  qed
  then have "\<forall>(s, p)\<in>set g. 2 \<le> length (group s (rows inc))"
    by blast
  moreover have "s \<notin> fst ` set g" if "length (group s (rows inc)) \<le> 1" for s
  proof
    assume "s \<in> fst ` set g"
    then obtain p where "(s, p) \<in> set g" by auto
    from two [OF this] that show False by simp
  qed
  ultimately show ?thesis by blast
qed

theorem growth_needs_two_observations_witness:
  "growth lib0 frame1 = Inr [(''CA'', Fin 10), (''MD'', Fin 4)] \<and>
   length (group ''VA'' (rows frame1)) = 1 \<and>
   ''VA'' \<notin> fst ` set [(''CA'', Fin 10), (''MD'', Fin 4)] \<and>
   (''MD'', Fin 4) \<in> set [(''CA'', Fin 10), (''MD'', Fin 4)] \<and>
   2 \<le> length (group ''MD'' (rows frame1))"
proof -
  have v: "length (group ''VA'' (rows frame1)) \<le> 1"
    using sample1_groups by simp
  have m: "(''MD'', Fin 4) \<in> set [(''CA'', Fin 10), (''MD'', Fin 4)]"
    by simp
  from growth_needs_two_observations [OF sample1_growth] v m
  have "''VA'' \<notin> fst ` set [(''CA'', Fin 10), (''MD'', Fin 4)] \<and> 2 \<le> length (group ''MD'' (rows frame1))"
    by blast
  with sample1_growth sample1_groups m show ?thesis
    by blast
qed

subsection \<open>The edges, evaluated\<close>

text \<open>
  With the sample library: one year only and the slider ends the run at line 62; two
  date columns and line 30 raises; a number as header and line 29 raises. With two rows in
  a state's first year the percent change depends on how the library orders equal years.
\<close>

lemma sample_edges:
  "app lib0 (Some [(''cleaned_long'', sheet_one)]) 1990 0 =
     Inl (Raised (StreamlitError ''Slider min_value must be less than the max_value'')) \<and>
   load_data lib0 [(''cleaned_long'', sheet_dup)] =
     Inl (Raised (ValueError ''to assemble mappings requires at least that [year, month, day] be specified'')) \<and>
   load_data lib0 [(''cleaned_long'', sheet_num)] = Inl (Raised (AttributeError ''strip''))"
  by code_simp

lemma sample_tie_order:
  "growth lib0 frame_ties = Inr [(''AA'', Fin (- 50))] \<and>
   growth (lib0\<lparr>ties := (\<lambda>ks i. length ks - i)\<rparr>) frame_ties = Inr [(''AA'', Fin (- (175 / 2)))]"
  by code_simp

subsection \<open>The unbound name\<close>

text \<open>
  Claim C1. The script never computes \<open>real_income\<close>. On the sample workbook with base year
  2017 every guard passes, the income frame of line 96 has two rows and no \<open>real_income\<close>
  column, and the run ends at line 103 with NameError for \<open>sel\<close>.
\<close>

theorem real_income_never_computed:
  "load_data lib0 book0 = Inr frame0 \<and>
   income_guard frame0 = Inr ''income_per_capita'' \<and>
   length (rows (income frame0 ''income_per_capita'')) = 2 \<and>
   ''real_income'' \<notin> set (columns (income frame0 ''income_per_capita'')) \<and>
   app lib0 (Some book0) 2017 0 = Inl (Raised (NameError ''sel''))"
  by code_simp

text \<open>
  Claim C3. The script never ranks the states. On the sample workbook MD has two
  observations in the income frame of line 96, but the run ends at line 103 before the
  growth expression, and that expression itself, given the income frame the script
  builds, raises KeyError for the \<open>real_income\<close> column that no statement assigns: there
  is no percent change and there are no top and bottom tables.
\<close>

theorem growth_never_ranked:
  "app lib0 (Some book0) 2017 0 = Inl (Raised (NameError ''sel'')) \<and>
   length (group ''MD'' (rows (income frame0 ''income_per_capita''))) = 2 \<and>
   growth lib0 (income frame0 ''income_per_capita'') = Inl (Raised (KeyError ''real_income''))"
  by code_simp

text \<open>
  Claim C5. No run gets to the download button: whatever the file and the widget values,
  the script stops or raises before it has a page to show.
\<close>

theorem app_never_renders:
  "\<exists>h. app L uploaded_file base_year pick = Inl h"
  by (auto simp: app_def bind_def sel_def split: option.splits sum.splits)

end
